theory Spec2Isabelle
  imports Complex_Main "HOL-Library.Word"
begin

section \<open>JavaScript values used by \<open>src/App.tsx\<close>\<close>

subsection \<open>Strings\<close>

text \<open>
  A JavaScript string is a sequence of 16-bit code units. String literals of the source
  are ASCII and are written with \<open>js\<close>.
\<close>

type_synonym code_unit = "16 word"
type_synonym jsstring = "code_unit list"

definition js :: "string \<Rightarrow> jsstring" where
  "js s = map of_char s"

text \<open>
  White space and line terminators of ECMAScript: what \<open>String.prototype.trim\<close> and
  \<open>parseFloat\<close> strip.
\<close>

definition is_ws :: "code_unit \<Rightarrow> bool" where
  "is_ws c \<longleftrightarrow>
     c = 0x0009 \<or> c = 0x000A \<or> c = 0x000B \<or> c = 0x000C \<or> c = 0x000D \<or> c = 0x0020 \<or>
     c = 0x00A0 \<or> c = 0x1680 \<or> (0x2000 \<le> c \<and> c \<le> 0x200A) \<or> c = 0x2028 \<or> c = 0x2029 \<or>
     c = 0x202F \<or> c = 0x205F \<or> c = 0x3000 \<or> c = 0xFEFF"

definition trim :: "jsstring \<Rightarrow> jsstring" where
  "trim s = rev (dropWhile is_ws (rev (dropWhile is_ws s)))"

definition is_hex :: "code_unit \<Rightarrow> bool" where
  "is_hex c \<longleftrightarrow>
     (0x61 \<le> c \<and> c \<le> 0x66) \<or> (0x41 \<le> c \<and> c \<le> 0x46) \<or> (0x30 \<le> c \<and> c \<le> 0x39)"

text \<open>
  \<open>isValidAddress\<close>: \<open>/^0x[a-fA-F0-9]{40}$/.test(address)\<close>. The expression has no flags, so
  \<open>^\<close> and \<open>$\<close> are the two ends of the input and the whole string is matched.
\<close>

definition isValidAddress :: "jsstring \<Rightarrow> bool" where
  "isValidAddress address \<longleftrightarrow>
     (case address of
        c0 # c1 # digits \<Rightarrow> c0 = 0x30 \<and> c1 = 0x78 \<and> length digits = 40 \<and> list_all is_hex digits
      | _ \<Rightarrow> False)"

subsection \<open>Numbers\<close>

text \<open>
  A JavaScript number is an IEEE 754 double. A finite double is represented by its exact
  rational value. The sign of zero is dropped: the program compares numbers with \<open>>=\<close>,
  divides and multiplies by positive constants and prints with \<open>toFixed\<close>, and as the
  language specifies them (\<open>toFixed\<close> and \<open>Number::toString\<close> read the mathematical
  value) none of these tells \<open>-0\<close> from \<open>0\<close>.
\<close>

datatype number = NaN | PosInf | NegInf | Fin rat

definition pow :: "int \<Rightarrow> int \<Rightarrow> rat" where
  "pow b e = (if 0 \<le> e then of_int b ^ nat e else 1 / of_int b ^ nat (- e))"

text \<open>The number of digits of \<open>n\<close> in base \<open>b\<close>; none for \<open>n \<le> 0\<close>.\<close>

function ndigits :: "int \<Rightarrow> int \<Rightarrow> int" where
  "ndigits b n = (if n \<le> 0 \<or> b \<le> 1 then 0 else 1 + ndigits b (n div b))"
  by pat_completeness auto
termination
  by (relation "measure (\<lambda>(b, n). nat n)") (auto intro!: int_div_less_self)

declare ndigits.simps [simp del]

text \<open>For \<open>a > 0\<close>, the integer \<open>e\<close> with \<open>b\<^sup>e \<le> a < b\<^sup>e\<^sup>+\<^sup>1\<close>.\<close>

definition ilog :: "int \<Rightarrow> rat \<Rightarrow> int" where
  "ilog b a = (if 1 \<le> a then ndigits b \<lfloor>a\<rfloor> - 1 else - ndigits b (\<lceil>1 / a\<rceil> - 1))"

definition round_half_even :: "rat \<Rightarrow> int" where
  "round_half_even q =
     (let f = \<lfloor>q\<rfloor>; r = q - of_int f
      in if r < 1 / 2 then f else if 1 / 2 < r then f + 1 else if even f then f else f + 1)"

text \<open>
  The double nearest to a rational, ties to the even significand: 53 bits of significand
  down to the exponent \<open>-1022\<close>, multiples of \<open>2\<^sup>-\<^sup>1\<^sup>0\<^sup>7\<^sup>4\<close> below, an infinity from \<open>2\<^sup>1\<^sup>0\<^sup>2\<^sup>4\<close> on.
\<close>

definition to_double :: "rat \<Rightarrow> number" where
  "to_double q =
     (if q = 0 then Fin 0
      else
        let a = \<bar>q\<bar>;
            e = max (ilog 2 a) (- 1022);
            ulp = pow 2 (e - 52);
            v = of_int (round_half_even (a / ulp)) * ulp
        in if pow 2 1024 \<le> v then (if q < 0 then NegInf else PosInf)
           else Fin (if q < 0 then - v else v))"

text \<open>\<open>x >= y\<close>\<close>

fun ge :: "number \<Rightarrow> number \<Rightarrow> bool" where
  "ge NaN _ = False"
| "ge _ NaN = False"
| "ge PosInf _ = True"
| "ge _ NegInf = True"
| "ge NegInf _ = False"
| "ge _ PosInf = False"
| "ge (Fin a) (Fin b) = (b \<le> a)"

text \<open>\<open>x / d\<close> and \<open>x * c\<close> for a finite double \<open>d > 0\<close>, \<open>c > 0\<close>.\<close>

fun div_by :: "number \<Rightarrow> rat \<Rightarrow> number" where
  "div_by (Fin q) d = to_double (q / d)"
| "div_by x d = x"

fun mul_by :: "number \<Rightarrow> rat \<Rightarrow> number" where
  "mul_by (Fin q) c = to_double (q * c)"
| "mul_by x c = x"

text \<open>The literal \<open>0.01\<close> of the source denotes the double nearest to 1/100.\<close>

definition literal_0_01 :: rat where
  "literal_0_01 = 5764607523034235 / 2 ^ 59"

subsection \<open>Numbers to strings\<close>

definition digit_char :: "int \<Rightarrow> code_unit" where
  "digit_char d = of_int (48 + d)"

function dec_digits :: "int \<Rightarrow> jsstring" where
  "dec_digits n = (if n < 10 then [digit_char n] else dec_digits (n div 10) @ [digit_char (n mod 10)])"
  by pat_completeness auto
termination
  by (relation "measure nat") auto

declare dec_digits.simps [simp del]

text \<open>
  \<open>Number::toString\<close> for a finite \<open>a > 0\<close>: integers \<open>n\<close>, \<open>k \<ge> 1\<close> and \<open>s\<close> with
  \<open>10\<^sup>k\<^sup>-\<^sup>1 \<le> s < 10\<^sup>k\<close> such that \<open>s \<times> 10\<^sup>n\<^sup>-\<^sup>k\<close> rounds to \<open>a\<close>, with \<open>k\<close> as small as possible and,
  among several \<open>s\<close>, the one nearest to \<open>a\<close>, the even one on a tie. Seventeen digits
  always suffice for a double.
\<close>

definition round_trips :: "rat \<Rightarrow> int \<Rightarrow> int \<Rightarrow> bool" where
  "round_trips a s e \<longleftrightarrow> to_double (of_int s * pow 10 e) = Fin a"

fun shortest :: "rat \<Rightarrow> int \<Rightarrow> nat \<Rightarrow> int \<Rightarrow> int \<times> int" where
  "shortest a n 0 k = (k, \<lfloor>a / pow 10 (n - k)\<rfloor>)"
| "shortest a n (Suc fuel) k =
     (let p = pow 10 (n - k);
          lo = \<lfloor>a / p\<rfloor>;
          hi = lo + 1;
          ok_lo = round_trips a lo (n - k);
          ok_hi = (of_int hi < pow 10 k \<and> round_trips a hi (n - k));
          d_lo = a - of_int lo * p;
          d_hi = of_int hi * p - a
      in if ok_lo \<and> ok_hi then
           (k, if d_lo < d_hi then lo else if d_hi < d_lo then hi else if even lo then lo else hi)
         else if ok_lo then (k, lo)
         else if ok_hi then (k, hi)
         else shortest a n fuel (k + 1))"

definition digits_nks :: "rat \<Rightarrow> int \<times> int \<times> int" where
  "digits_nks a =
     (let n = ilog 10 a + 1
      in if round_trips a 1 n then (n + 1, 1, 1)
         else (case shortest a n 17 1 of (k, s) \<Rightarrow> (n, k, s)))"

definition number_to_string_pos :: "rat \<Rightarrow> jsstring" where
  "number_to_string_pos a =
     (case digits_nks a of (n, k, s) \<Rightarrow>
        let ds = dec_digits s in
        if k \<le> n \<and> n \<le> 21 then ds @ replicate (nat (n - k)) 0x30
        else if 0 < n \<and> n \<le> 21 then take (nat n) ds @ js ''.'' @ drop (nat n) ds
        else if - 6 < n \<and> n \<le> 0 then js ''0.'' @ replicate (nat (- n)) 0x30 @ ds
        else
          let e = n - 1;
              ex = (if e < 0 then js ''-'' else js ''+'') @ dec_digits \<bar>e\<bar>
          in if k = 1 then ds @ js ''e'' @ ex
             else take 1 ds @ js ''.'' @ drop 1 ds @ js ''e'' @ ex)"

definition number_to_string :: "number \<Rightarrow> jsstring" where
  "number_to_string x =
     (case x of
        NaN \<Rightarrow> js ''NaN''
      | PosInf \<Rightarrow> js ''Infinity''
      | NegInf \<Rightarrow> js ''-Infinity''
      | Fin q \<Rightarrow>
          if q = 0 then js ''0''
          else if q < 0 then js ''-'' @ number_to_string_pos (- q)
          else number_to_string_pos q)"

text \<open>Errors raised by the language itself, and values thrown by a collaborator.\<close>

datatype thrown = ErrorInstance jsstring | OtherValue

datatype exn = TypeError | RangeError | Thrown thrown

text \<open>
  \<open>Number.prototype.toFixed\<close>. For \<open>0 \<le> a < 10\<^sup>2\<^sup>1\<close>: the digits of the integer \<open>n\<close> nearest
  to \<open>a \<times> 10\<^sup>f\<close>, the larger one on a tie, padded with zeros to more than \<open>f\<close> digits, with a
  point before the last \<open>f\<close>.
\<close>

definition fixed_digits :: "rat \<Rightarrow> nat \<Rightarrow> jsstring" where
  "fixed_digits a f =
     (let n = \<lfloor>a * 10 ^ f + 1 / 2\<rfloor>;
          m = dec_digits n
      in if f = 0 then m
         else
           let m' = (if length m \<le> f then replicate (f + 1 - length m) 0x30 @ m else m);
               k = length m'
           in take (k - f) m' @ js ''.'' @ drop (k - f) m')"

definition toFixed :: "number \<Rightarrow> int \<Rightarrow> exn + jsstring" where
  "toFixed x fractionDigits =
     (if fractionDigits < 0 \<or> 100 < fractionDigits then Inl RangeError
      else
        Inr (case x of
               Fin q \<Rightarrow>
                 (if q < 0 then js ''-'' else []) @
                 (if 10 ^ 21 \<le> \<bar>q\<bar> then number_to_string_pos \<bar>q\<bar>
                  else fixed_digits \<bar>q\<bar> (nat fractionDigits))
             | _ \<Rightarrow> number_to_string x))"

subsection \<open>\<open>parseFloat\<close>\<close>

definition is_digit :: "code_unit \<Rightarrow> bool" where
  "is_digit c \<longleftrightarrow> 0x30 \<le> c \<and> c \<le> 0x39"

definition decimal :: "jsstring \<Rightarrow> int" where
  "decimal ds = foldl (\<lambda>acc c. 10 * acc + (uint c - 48)) 0 ds"

text \<open>The sign in front of a literal or of an exponent.\<close>

definition split_sign :: "jsstring \<Rightarrow> bool \<times> jsstring" where
  "split_sign t =
     (case t of
        [] \<Rightarrow> (False, t)
      | c # r \<Rightarrow> if c = 0x2D then (True, r) else if c = 0x2B then (False, r) else (False, t))"

text \<open>
  The exponent part, when the rest starts with one: \<open>e\<close> or \<open>E\<close>, an optional sign, digits.
\<close>

definition exponent_part :: "jsstring \<Rightarrow> int" where
  "exponent_part r =
     (case r of
        [] \<Rightarrow> 0
      | c # r' \<Rightarrow>
          if c = 0x65 \<or> c = 0x45 then
            (case split_sign r' of (neg, d) \<Rightarrow>
               let ds = takeWhile is_digit d
               in if ds = [] then 0 else if neg then - decimal ds else decimal ds)
          else 0)"

text \<open>
  The mathematical value of the longest prefix that is an unsigned decimal literal: digits
  with an optional point and fraction, or a point and digits, and an optional exponent;
  \<open>None\<close> when no prefix is one.
\<close>

definition literal_value :: "jsstring \<Rightarrow> rat option" where
  "literal_value u =
     (let ip = takeWhile is_digit u;
          r1 = dropWhile is_digit u;
          dot = (case r1 of [] \<Rightarrow> False | c # _ \<Rightarrow> c = 0x2E);
          fp = (if dot then takeWhile is_digit (tl r1) else []);
          r2 = (if dot then dropWhile is_digit (tl r1) else r1)
      in if ip = [] \<and> fp = [] then None
         else Some ((of_int (decimal ip) + of_int (decimal fp) / 10 ^ length fp)
                      * pow 10 (exponent_part r2)))"

text \<open>
  \<open>parseFloat\<close>: leading white space is skipped, a sign and then \<open>Infinity\<close> or the longest
  decimal literal are read, and the value is rounded to a double; \<open>NaN\<close> when there is
  neither.
\<close>

definition parseFloat :: "jsstring \<Rightarrow> number" where
  "parseFloat string =
     (case split_sign (dropWhile is_ws string) of (neg, u) \<Rightarrow>
        if take 8 u = js ''Infinity'' then (if neg then NegInf else PosInf)
        else (case literal_value u of
                None \<Rightarrow> NaN
              | Some mv \<Rightarrow> to_double (if neg then - mv else mv)))"

subsection \<open>Parsed JSON\<close>

text \<open>
  What \<open>response.json()\<close> resolves to. An object keeps its members in the order of the
  text; a later member of the same name overrides an earlier one.
\<close>

datatype json =
    JNull
  | JBool bool
  | JNum number
  | JStr jsstring
  | JArr "json list"
  | JObj "(jsstring \<times> json) list"

text \<open>\<open>!v\<close> is true for the falsy values.\<close>

fun truthy :: "json \<Rightarrow> bool" where
  "truthy JNull = False"
| "truthy (JBool b) = b"
| "truthy (JNum x) = (x \<noteq> NaN \<and> x \<noteq> Fin 0)"
| "truthy (JStr s) = (s \<noteq> [])"
| "truthy (JArr _) = True"
| "truthy (JObj _) = True"

definition get_member :: "(jsstring \<times> json) list \<Rightarrow> string \<Rightarrow> json option" where
  "get_member ms k = map_of (rev ms) (js k)"

subsection \<open>\<open>ToString\<close>\<close>

text \<open>
  \<open>ToString\<close>, as a template literal applies it. An array joins its elements with commas,
  \<open>null\<close> elements as empty strings. An object is converted by its \<open>toString\<close>: the one
  it inherits writes \<open>[object Object]\<close>; a member of that name hides it and, as no parsed
  value is a function and the inherited \<open>valueOf\<close> returns the object itself, the
  conversion raises a \<open>TypeError\<close>.
\<close>

fun to_string :: "json \<Rightarrow> exn + jsstring" and join :: "json list \<Rightarrow> exn + jsstring" where
  "to_string JNull = Inr (js ''null'')"
| "to_string (JBool b) = Inr (if b then js ''true'' else js ''false'')"
| "to_string (JNum x) = Inr (number_to_string x)"
| "to_string (JStr s) = Inr s"
| "to_string (JArr vs) = join vs"
| "to_string (JObj ms) =
     (if get_member ms ''toString'' = None then Inr (js ''[object Object]'') else Inl TypeError)"
| "join [] = Inr []"
| "join [v] = (if v = JNull then Inr [] else to_string v)"
| "join (v # v' # vs) =
     (case (if v = JNull then Inr [] else to_string v) of
        Inl e \<Rightarrow> Inl e
      | Inr s \<Rightarrow> (case join (v' # vs) of Inl e \<Rightarrow> Inl e | Inr t \<Rightarrow> Inr (s @ js '','' @ t)))"

text \<open>
  The interface \<open>WalletStats\<close> of the source: two string members and five number members.
\<close>

definition is_str :: "json option \<Rightarrow> bool" where
  "is_str v = (case v of Some (JStr _) \<Rightarrow> True | _ \<Rightarrow> False)"

definition is_num :: "json option \<Rightarrow> bool" where
  "is_num v = (case v of Some (JNum _) \<Rightarrow> True | _ \<Rightarrow> False)"

definition has_WalletStats_shape :: "json \<Rightarrow> bool" where
  "has_WalletStats_shape d =
     (case d of
        JObj ms \<Rightarrow>
          is_str (get_member ms ''address'') \<and> is_str (get_member ms ''total_volume'') \<and>
          is_num (get_member ms ''total_trades'') \<and> is_num (get_member ms ''buy_count'') \<and>
          is_num (get_member ms ''sell_count'') \<and> is_num (get_member ms ''first_trade'') \<and>
          is_num (get_member ms ''last_trade'')
      | _ \<Rightarrow> False)"

section \<open>Display values\<close>

text \<open>The argument of \<open>formatNumber\<close> is a \<open>number | string\<close>.\<close>

datatype num_or_string = Num number | Str jsstring

definition suffixed :: "exn + jsstring \<Rightarrow> string \<Rightarrow> exn + jsstring" where
  "suffixed r suffix = (case r of Inl e \<Rightarrow> Inl e | Inr s \<Rightarrow> Inr (s @ js suffix))"

definition formatNumber :: "num_or_string \<Rightarrow> exn + jsstring" where
  "formatNumber num =
     (let number = (case num of Str s \<Rightarrow> parseFloat s | Num x \<Rightarrow> x)
      in if ge number (Fin 1000000) then suffixed (toFixed (div_by number 1000000) 2) ''M''
         else if ge number (Fin 1000) then suffixed (toFixed (div_by number 1000) 2) ''K''
         else toFixed number 2)"

text \<open>
  The fee shown beside the volume:
  \<open>formatNumber(parseFloat(stats.total_volume) * 0.01)\<close>.
\<close>

definition fee_display :: "jsstring \<Rightarrow> exn + jsstring" where
  "fee_display total_volume = formatNumber (Num (mul_by (parseFloat total_volume) literal_0_01))"

subsection \<open>The display rules in exact arithmetic\<close>

text \<open>
  A value to two decimal places: the nearest hundredth, the larger one on a tie, written
  with its sign, its integer digits, a point and two digits.
\<close>

definition two_decimals :: "rat \<Rightarrow> jsstring" where
  "two_decimals q =
     (let n = \<lfloor>\<bar>q\<bar> * 100 + 1 / 2\<rfloor>
      in (if q < 0 then js ''-'' else []) @ dec_digits (n div 100) @ js ''.'' @
         [digit_char (n div 10 mod 10), digit_char (n mod 10)])"

text \<open>
  The abbreviation rule as the specification words it, on the magnitude of the value:
  \<open>M\<close> from 1,000,000, \<open>K\<close> from 1,000, the value itself below.
\<close>

definition abbreviate_by_magnitude :: "rat \<Rightarrow> jsstring" where
  "abbreviate_by_magnitude x =
     (if 1000000 \<le> \<bar>x\<bar> then two_decimals (x / 1000000) @ js ''M''
      else if 1000 \<le> \<bar>x\<bar> then two_decimals (x / 1000) @ js ''K''
      else two_decimals x)"

text \<open>
  The fee as the specification words it: the volume, read from its decimal string with no
  loss, times 0.01, and the exact product then formatted by \<open>formatNumber\<close>.
\<close>

definition estimatedFee_exact :: "rat \<Rightarrow> exn + jsstring" where
  "estimatedFee_exact total_volume = formatNumber (Num (to_double (total_volume * (1 / 100))))"

section \<open>The component state and the page\<close>

text \<open>
  The card element \<open>statsCardRef.current\<close>: its layout size and the inline \<open>display\<close>
  style of its \<open>[data-save-button]\<close> descendant, when \<open>querySelector\<close> finds one.
\<close>

record card =
  offsetWidth :: int
  offsetHeight :: int
  saveButton :: "jsstring option"

text \<open>The options object passed to \<open>html2canvas\<close>, with its target element.\<close>

record render_request =
  target :: card
  backgroundColor :: jsstring
  scale :: int
  useCORS :: bool
  allowTaint :: bool
  width :: int
  height :: int

text \<open>
  The anchor element that is clicked: its \<open>download\<close> attribute, and its \<open>href\<close>, the data
  URL that \<open>canvas.toDataURL(mime)\<close> returned for the canvas of a render request.
\<close>

record data_url =
  mime :: jsstring
  canvas_of :: render_request

record download =
  filename :: jsstring
  href :: data_url

text \<open>
  The six \<open>useState\<close>/\<open>useRef\<close> cells of \<open>App\<close>, and the effects on the browser as logs:
  the URLs given to \<open>fetch\<close>, the values given to \<open>console.error\<close>, the downloads started.
\<close>

record world =
  walletAddress :: jsstring
  stats :: json
  loading :: bool
  error :: jsstring
  isGeneratingImage :: bool
  statsCardRef :: "card option"
  requests :: "jsstring list"
  console :: "exn list"
  downloads :: "download list"

definition initial :: world where
  "initial = \<lparr> walletAddress = [], stats = JNull, loading = False, error = [],
               isGeneratingImage = False, statsCardRef = None,
               requests = [], console = [], downloads = [] \<rparr>"

section \<open>\<open>fetchWalletStats\<close>\<close>

text \<open>What the collaborator API and the network answer to the one \<open>fetch\<close>.\<close>

datatype body = JsonValue json | JsonReject thrown

datatype fetch_outcome = NetworkReject thrown | Response bool body

definition api_url :: "jsstring \<Rightarrow> jsstring" where
  "api_url address = js ''https://donkey-api.liquidlaunch.app/api/wallet/'' @ address"

text \<open>
  The function up to its first \<open>await\<close>. The result says whether it is suspended on the
  \<open>fetch\<close> (\<open>True\<close>) or has returned (\<open>False\<close>).
\<close>

definition fetchWalletStats_start :: "world \<Rightarrow> bool \<times> world" where
  "fetchWalletStats_start w =
     (if trim (walletAddress w) = [] then
        (False, w\<lparr>error := js ''Please enter a wallet address''\<rparr>)
      else if \<not> isValidAddress (trim (walletAddress w)) then
        (False, w\<lparr>error := js ''Please enter a valid Ethereum wallet address''\<rparr>)
      else
        (True, w\<lparr>loading := True, error := [], stats := JNull,
                 requests := requests w @ [api_url (trim (walletAddress w))]\<rparr>))"

text \<open>The body of the \<open>try\<close> block: \<open>Inl\<close> is a throw, which leaves the state as it was.\<close>

definition fetch_try :: "fetch_outcome \<Rightarrow> world \<Rightarrow> thrown + world" where
  "fetch_try outcome w =
     (case outcome of
        NetworkReject err \<Rightarrow> Inl err
      | Response ok b \<Rightarrow>
          if \<not> ok then Inl (ErrorInstance (js ''Failed to fetch wallet statistics''))
          else (case b of
                  JsonReject err \<Rightarrow> Inl err
                | JsonValue data \<Rightarrow> Inr (w\<lparr>stats := data\<rparr>)))"

text \<open>\<open>err instanceof Error ? err.message : "An error occurred"\<close>\<close>

definition catch_message :: "thrown \<Rightarrow> jsstring" where
  "catch_message err =
     (case err of ErrorInstance message \<Rightarrow> message | OtherValue \<Rightarrow> js ''An error occurred'')"

definition fetch_catch :: "thrown \<Rightarrow> world \<Rightarrow> thrown + world" where
  "fetch_catch err w = Inr (w\<lparr>error := catch_message err\<rparr>)"

definition fetch_finally :: "world \<Rightarrow> world" where
  "fetch_finally w = w\<lparr>loading := False\<rparr>"

text \<open>
  The function from the moment the \<open>fetch\<close> settles: \<open>try\<close>, \<open>catch\<close>, \<open>finally\<close>. \<open>Inl\<close> would
  be a throw out of \<open>fetchWalletStats\<close>.
\<close>

definition fetchWalletStats_resume :: "fetch_outcome \<Rightarrow> world \<Rightarrow> thrown + world" where
  "fetchWalletStats_resume outcome w =
     (case (case fetch_try outcome w of Inl err \<Rightarrow> fetch_catch err w | Inr w' \<Rightarrow> Inr w') of
        Inl err \<Rightarrow> Inl err
      | Inr w' \<Rightarrow> Inr (fetch_finally w'))"

definition fetchWalletStats :: "fetch_outcome \<Rightarrow> world \<Rightarrow> thrown + world" where
  "fetchWalletStats outcome w =
     (case fetchWalletStats_start w of
        (True, w') \<Rightarrow> fetchWalletStats_resume outcome w'
      | (False, w') \<Rightarrow> Inr w')"

text \<open>\<open>onChange\<close> of the input followed by \<open>handleSubmit\<close>.\<close>

definition submit_start :: "jsstring \<Rightarrow> world \<Rightarrow> bool \<times> world" where
  "submit_start rawInput w = fetchWalletStats_start (w\<lparr>walletAddress := rawInput\<rparr>)"

definition submit :: "jsstring \<Rightarrow> fetch_outcome \<Rightarrow> world \<Rightarrow> thrown + world" where
  "submit rawInput outcome w = fetchWalletStats outcome (w\<lparr>walletAddress := rawInput\<rparr>)"

section \<open>\<open>downloadStatsImage\<close>\<close>

text \<open>What \<open>html2canvas\<close> and \<open>canvas.toDataURL\<close> do when called.\<close>

datatype raster_outcome = Rendered | RenderThrows thrown

datatype encode_outcome = Encoded | EncodeThrows thrown

definition set_display :: "string \<Rightarrow> card \<Rightarrow> card" where
  "set_display v c = c\<lparr>saveButton := (case saveButton c of None \<Rightarrow> None | Some _ \<Rightarrow> Some (js v))\<rparr>"

text \<open>
  \<open>stats.address.slice(0, 8)\<close>: a string or an array has \<open>slice\<close>; reading \<open>slice\<close> of
  \<open>undefined\<close> or \<open>null\<close> and calling what is not a function raise a \<open>TypeError\<close>. The
  template literal then converts the slice to a string, which may raise as well.
\<close>

definition address_slice :: "json \<Rightarrow> exn + json" where
  "address_slice st =
     (case st of
        JObj ms \<Rightarrow>
          (case get_member ms ''address'' of
             Some (JStr s) \<Rightarrow> Inr (JStr (take 8 s))
           | Some (JArr vs) \<Rightarrow> Inr (JArr (take 8 vs))
           | _ \<Rightarrow> Inl TypeError)
      | _ \<Rightarrow> Inl TypeError)"

definition download_name :: "json \<Rightarrow> exn + jsstring" where
  "download_name st =
     (case address_slice st of
        Inl e \<Rightarrow> Inl e
      | Inr v \<Rightarrow>
          (case to_string v of
             Inl e \<Rightarrow> Inl e
           | Inr a \<Rightarrow> Inr (js ''wallet-stats-'' @ a @ js ''.png'')))"

definition canvas_options :: "card \<Rightarrow> render_request" where
  "canvas_options c =
     \<lparr> target = c, backgroundColor = js ''#000000'', scale = 2, useCORS = True,
       allowTaint = True, width = offsetWidth c, height = offsetHeight c \<rparr>"

text \<open>
  The function up to its \<open>await\<close>: the guard, the flag, the button hidden. The result
  holds the card that is handed to \<open>html2canvas\<close> when the function is suspended on it,
  and \<open>None\<close> when the function has returned.
\<close>

definition export_start :: "world \<Rightarrow> card option \<times> world" where
  "export_start w =
     (case statsCardRef w of
        None \<Rightarrow> (None, w)
      | Some c \<Rightarrow>
          if \<not> truthy (stats w) then (None, w)
          else (Some (set_display ''none'' c),
                w\<lparr>isGeneratingImage := True, statsCardRef := Some (set_display ''none'' c)\<rparr>))"

text \<open>
  The body of the \<open>try\<close> block, for the card \<open>c\<close> and the \<open>stats\<close> the function holds: \<open>Inl\<close>
  is a throw, which leaves the state as it was.
\<close>

definition export_try :: "raster_outcome \<Rightarrow> encode_outcome \<Rightarrow> card \<Rightarrow> json \<Rightarrow> world \<Rightarrow> exn + world" where
  "export_try raster enc c st w =
     (case raster of
        RenderThrows err \<Rightarrow> Inl (Thrown err)
      | Rendered \<Rightarrow>
          (case download_name st of
             Inl e \<Rightarrow> Inl e
           | Inr name \<Rightarrow>
               (case enc of
                  EncodeThrows err \<Rightarrow> Inl (Thrown err)
                | Encoded \<Rightarrow>
                    Inr (w\<lparr>downloads := downloads w @
                           [\<lparr> filename = name,
                              href = \<lparr> mime = js ''image/png'', canvas_of = canvas_options c \<rparr> \<rparr>]\<rparr>))))"

definition export_catch :: "exn \<Rightarrow> world \<Rightarrow> exn + world" where
  "export_catch e w = Inr (w\<lparr>console := console w @ [e]\<rparr>)"

definition export_finally :: "world \<Rightarrow> world" where
  "export_finally w =
     w\<lparr>statsCardRef := (case statsCardRef w of None \<Rightarrow> None | Some c \<Rightarrow> Some (set_display ''flex'' c)),
       isGeneratingImage := False\<rparr>"

definition downloadStatsImage :: "raster_outcome \<Rightarrow> encode_outcome \<Rightarrow> world \<Rightarrow> exn + world" where
  "downloadStatsImage raster enc w =
     (case export_start w of
        (None, w') \<Rightarrow> Inr w'
      | (Some c, w') \<Rightarrow>
          (case (case export_try raster enc c (stats w) w' of
                   Inl e \<Rightarrow> export_catch e w'
                 | Inr w'' \<Rightarrow> Inr w'') of
             Inl e \<Rightarrow> Inl e
           | Inr w'' \<Rightarrow> Inr (export_finally w'')))"

section \<open>Example inputs\<close>

text \<open>An address of the shape the API expects, and the same with white space around it.\<close>

definition example_address :: jsstring where
  "example_address = js ''0xABCABCABCABCABCABCABCABCABCABCABCABCABCA''"

definition padded_address :: jsstring where
  "padded_address = js '' 0xABCABCABCABCABCABCABCABCABCABCABCABCABCA ''"

text \<open>The sample response of the API, and the page once it is loaded and its card shown.\<close>

definition example_members :: "(jsstring \<times> json) list" where
  "example_members =
     [(js ''address'', JStr example_address),
      (js ''total_volume'', JStr (js ''824.309202265870747275'')),
      (js ''total_trades'', JNum (Fin 142)),
      (js ''buy_count'', JNum (Fin 85)),
      (js ''sell_count'', JNum (Fin 57)),
      (js ''first_trade'', JNum (Fin 1749666804)),
      (js ''last_trade'', JNum (Fin 1750444284))]"

definition example_stats :: json where
  "example_stats = JObj example_members"

definition loaded :: world where
  "loaded = initial\<lparr>walletAddress := example_address, stats := example_stats,
                    requests := [api_url example_address]\<rparr>"

text \<open>The page after the sample was loaded and an invalid address was then submitted.\<close>

definition stale :: world where
  "stale = loaded\<lparr>walletAddress := js ''0x123'',
                   error := js ''Please enter a valid Ethereum wallet address''\<rparr>"

definition example_card :: card where
  "example_card = \<lparr> offsetWidth = 640, offsetHeight = 480, saveButton = Some [] \<rparr>"

definition shown :: world where
  "shown = loaded\<lparr>statsCardRef := Some example_card\<rparr>"

section \<open>Validation and the request\<close>

lemma isValidAddress_length: "isValidAddress a \<Longrightarrow> length a = 42"
  by (auto simp: isValidAddress_def split: list.splits)

lemma isValidAddress_nonempty: "isValidAddress a \<Longrightarrow> a \<noteq> []"
  by (auto simp: isValidAddress_def)

lemma trim_padded_address: "trim padded_address = example_address"
  by (simp add: trim_def padded_address_def example_address_def js_def is_ws_def)

lemma example_address_valid: "isValidAddress example_address"
  by (simp add: isValidAddress_def example_address_def js_def is_hex_def)

lemma padded_address_invalid: "\<not> isValidAddress padded_address"
  by (simp add: isValidAddress_def padded_address_def js_def)

lemma fetchWalletStats_start_valid:
  assumes "isValidAddress (trim (walletAddress w))"
  shows "fetchWalletStats_start w =
           (True, w\<lparr>loading := True, error := [], stats := JNull,
                    requests := requests w @ [api_url (trim (walletAddress w))]\<rparr>)"
  using assms isValidAddress_nonempty [OF assms] by (simp add: fetchWalletStats_start_def)

lemma fetchWalletStats_start_invalid:
  assumes "\<not> isValidAddress (trim (walletAddress w))"
  shows "fetchWalletStats_start w =
           (False, w\<lparr>error := (if trim (walletAddress w) = [] then js ''Please enter a wallet address''
                                else js ''Please enter a valid Ethereum wallet address'')\<rparr>)"
  using assms by (simp add: fetchWalletStats_start_def)

text \<open>The \<open>catch\<close> clause handles every throw of the \<open>try\<close> block, so the function returns.\<close>

lemma resume_total:
  "fetchWalletStats_resume outcome w =
     Inr (case fetch_try outcome w of
            Inl err \<Rightarrow> w\<lparr>error := catch_message err, loading := False\<rparr>
          | Inr w' \<Rightarrow> w'\<lparr>loading := False\<rparr>)"
  by (simp add: fetchWalletStats_resume_def fetch_catch_def fetch_finally_def split: sum.splits)

lemma resume_requests:
  "fetchWalletStats_resume outcome w = Inr w' \<Longrightarrow> requests w' = requests w"
  by (auto simp: resume_total fetch_try_def split: sum.splits fetch_outcome.splits body.splits if_splits)

text \<open>
  C1. When the trimmed input is a valid address, the submission is suspended on its
  \<open>fetch\<close> with \<open>loading\<close> set and with the stored statistics and the error message
  cleared, and it has given \<open>fetch\<close> one URL, the wallet endpoint of the API followed by
  the trimmed address; whatever the answer, the completed submission has made this one
  request and no other.
\<close>

theorem submit_valid_issues_one_request:
  assumes "isValidAddress (trim rawInput)"
  shows "\<exists>w'. submit_start rawInput w = (True, w') \<and> loading w' \<and> stats w' = JNull \<and> error w' = [] \<and>
              requests w' =
                requests w @ [js ''https://donkey-api.liquidlaunch.app/api/wallet/'' @ trim rawInput] \<and>
              (\<forall>outcome. \<exists>w''. submit rawInput outcome w = Inr w'' \<and>
                 requests w'' =
                   requests w @ [js ''https://donkey-api.liquidlaunch.app/api/wallet/'' @ trim rawInput])"
proof -
  let ?url = "js ''https://donkey-api.liquidlaunch.app/api/wallet/'' @ trim rawInput"
  let ?w0 = "w\<lparr>walletAddress := rawInput\<rparr>"
  let ?w1 = "?w0\<lparr>loading := True, error := [], stats := JNull,
                   requests := requests ?w0 @ [api_url (trim (walletAddress ?w0))]\<rparr>"
  have url: "api_url (trim rawInput) = ?url"
    by (simp add: api_url_def)
  have start: "fetchWalletStats_start ?w0 = (True, ?w1)"
    using assms by (intro fetchWalletStats_start_valid) simp
  have "\<exists>w''. submit rawInput outcome w = Inr w'' \<and> requests w'' = requests w @ [?url]"
    for outcome
  proof -
    obtain w'' where r: "fetchWalletStats_resume outcome ?w1 = Inr w''"
      by (simp add: resume_total)
    from resume_requests [OF r] have "requests w'' = requests w @ [?url]"
      by (simp add: url)
    with r start show ?thesis
      by (simp add: submit_def fetchWalletStats_def)
  qed
  with start show ?thesis
    by (simp add: submit_start_def url)
qed

lemma stale_fields:
  "stats stale = example_stats" "truthy (stats stale)"
  "error stale = js ''Please enter a valid Ethereum wallet address''" "error stale \<noteq> []"
  "requests stale =
     [js ''https://donkey-api.liquidlaunch.app/api/wallet/0xABCABCABCABCABCABCABCABCABCABCABCABCABCA'']"
  by (simp_all add: stale_def loaded_def initial_def example_stats_def api_url_def
      example_address_def js_def)

theorem submit_valid_issues_one_request_witness:
  "isValidAddress (trim padded_address) \<and>
   truthy (stats stale) \<and> error stale \<noteq> [] \<and>
   (\<exists>w'. submit_start padded_address stale = (True, w') \<and> loading w' \<and> stats w' = JNull \<and>
         error w' = [] \<and>
         requests w' =
           [js ''https://donkey-api.liquidlaunch.app/api/wallet/0xABCABCABCABCABCABCABCABCABCABCABCABCABCA'',
            js ''https://donkey-api.liquidlaunch.app/api/wallet/0xABCABCABCABCABCABCABCABCABCABCABCABCABCA''] \<and>
         (\<forall>outcome. \<exists>w''. submit padded_address outcome stale = Inr w'' \<and>
            requests w'' =
              [js ''https://donkey-api.liquidlaunch.app/api/wallet/0xABCABCABCABCABCABCABCABCABCABCABCABCABCA'',
               js ''https://donkey-api.liquidlaunch.app/api/wallet/0xABCABCABCABCABCABCABCABCABCABCABCABCABCA'']))"
proof -
  have v: "isValidAddress (trim padded_address)"
    by (simp add: trim_padded_address example_address_valid)
  have u: "js ''https://donkey-api.liquidlaunch.app/api/wallet/'' @ trim padded_address =
           js ''https://donkey-api.liquidlaunch.app/api/wallet/0xABCABCABCABCABCABCABCABCABCABCABCABCABCA''"
    by (simp add: trim_padded_address example_address_def js_def)
  from submit_valid_issues_one_request [OF v, of stale] v stale_fields(2,4) show ?thesis
    unfolding u stale_fields(5) by simp
qed

text \<open>
  C3. When the trimmed input does not match the address pattern, the empty string
  included, the submission returns without suspending, with one of the two validation
  messages as error message and with no request made; \<open>loading\<close> and the stored statistics
  are as before.
\<close>

theorem submit_invalid_is_rejected:
  assumes "\<not> isValidAddress (trim rawInput)"
  shows "\<exists>w'. submit_start rawInput w = (False, w') \<and>
              (\<forall>outcome. submit rawInput outcome w = Inr w') \<and>
              error w' = (if trim rawInput = [] then js ''Please enter a wallet address''
                          else js ''Please enter a valid Ethereum wallet address'') \<and>
              error w' \<noteq> [] \<and> requests w' = requests w \<and> loading w' = loading w \<and>
              stats w' = stats w"
  using assms
  by (simp add: submit_start_def submit_def fetchWalletStats_def fetchWalletStats_start_invalid js_def)

theorem submit_invalid_is_rejected_witness:
  "\<not> isValidAddress (trim (js ''0x123'')) \<and>
   (\<exists>w'. submit_start (js ''0x123'') initial = (False, w') \<and>
         (\<forall>outcome. submit (js ''0x123'') outcome initial = Inr w') \<and>
         error w' = (if trim (js ''0x123'') = [] then js ''Please enter a wallet address''
                     else js ''Please enter a valid Ethereum wallet address'') \<and>
         error w' \<noteq> [] \<and> requests w' = requests initial \<and> loading w' = loading initial \<and>
         stats w' = stats initial)"
proof -
  have v: "\<not> isValidAddress (trim (js ''0x123''))"
    by (simp add: trim_def js_def is_ws_def isValidAddress_def)
  from v submit_invalid_is_rejected [OF v, of initial] show ?thesis
    by blast
qed

text \<open>
  The pattern is tested on the trimmed input: an address with a space on each side does
  not match the pattern, and submitting it makes the request for the address inside.
\<close>

theorem padded_address_counterexample:
  "\<not> isValidAddress padded_address \<and>
   fst (submit_start padded_address initial) \<and>
   requests (snd (submit_start padded_address initial)) = [api_url example_address]"
  by (simp add: padded_address_invalid submit_start_def fetchWalletStats_start_valid
      trim_padded_address example_address_valid initial_def)

section \<open>The outcome of the fetch\<close>

lemma trim_example_address: "trim example_address = example_address"
  by (simp add: trim_def example_address_def js_def is_ws_def)

lemma trim_0x123: "trim (js ''0x123'') = js ''0x123''"
  by (simp add: trim_def js_def is_ws_def)

lemma invalid_0x123: "\<not> isValidAddress (js ''0x123'')"
  by (simp add: js_def isValidAddress_def)

lemma example_stats_shape: "has_WalletStats_shape example_stats"
  by (simp add: has_WalletStats_shape_def example_stats_def example_members_def get_member_def
      is_str_def is_num_def js_def)

lemma submit_valid:
  assumes "isValidAddress (trim rawInput)"
  shows "submit rawInput outcome w =
           fetchWalletStats_resume outcome
             (w\<lparr>walletAddress := rawInput, loading := True, error := [], stats := JNull,
                requests := requests w @ [api_url (trim rawInput)]\<rparr>)"
proof -
  have "isValidAddress (trim (walletAddress (w\<lparr>walletAddress := rawInput\<rparr>)))"
    using assms by simp
  from fetchWalletStats_start_valid [OF this] show ?thesis
    by (simp add: submit_def fetchWalletStats_def)
qed

lemma submit_invalid:
  assumes "\<not> isValidAddress (trim rawInput)"
  shows "submit rawInput outcome w =
           Inr (w\<lparr>walletAddress := rawInput,
                  error := (if trim rawInput = [] then js ''Please enter a wallet address''
                            else js ''Please enter a valid Ethereum wallet address'')\<rparr>)"
proof -
  have "\<not> isValidAddress (trim (walletAddress (w\<lparr>walletAddress := rawInput\<rparr>)))"
    using assms by simp
  from fetchWalletStats_start_invalid [OF this] show ?thesis
    by (simp add: submit_def fetchWalletStats_def)
qed

lemma submit_loads_example:
  "submit example_address (Response True (JsonValue example_stats)) initial = Inr loaded"
  by (simp add: submit_valid trim_example_address example_address_valid resume_total fetch_try_def
      loaded_def initial_def)




text \<open>
  C4. Before the first submission the error message and the statistics are both empty.
  A submission of a valid address leaves both empty while its \<open>fetch\<close> is in flight, and at
  most one of them is set when it has completed. A submission that validation rejects sets
  the error message and leaves the stored statistics as they were.
\<close>

theorem error_and_stats_around_fetch:
  assumes "isValidAddress (trim valid)" and "\<not> isValidAddress (trim invalid)"
  shows "error initial = [] \<and> stats initial = JNull \<and>
         (\<exists>w'. submit_start valid w = (True, w') \<and> error w' = [] \<and> stats w' = JNull) \<and>
         (\<forall>outcome. \<exists>w'. submit valid outcome w = Inr w' \<and> (error w' = [] \<or> stats w' = JNull)) \<and>
         (\<forall>outcome. \<exists>w'. submit invalid outcome w = Inr w' \<and> error w' \<noteq> [] \<and> stats w' = stats w)"
proof -
  have "isValidAddress (trim (walletAddress (w\<lparr>walletAddress := valid\<rparr>)))"
    using assms(1) by simp
  from fetchWalletStats_start_valid [OF this]
  have "\<exists>w'. submit_start valid w = (True, w') \<and> error w' = [] \<and> stats w' = JNull"
    by (simp add: submit_start_def)
  moreover have "\<exists>w'. submit valid outcome w = Inr w' \<and> (error w' = [] \<or> stats w' = JNull)"
    for outcome
    by (simp add: submit_valid [OF assms(1)] resume_total fetch_try_def
        split: fetch_outcome.splits body.splits)
  moreover have "\<exists>w'. submit invalid outcome w = Inr w' \<and> error w' \<noteq> [] \<and> stats w' = stats w"
    for outcome
    by (simp add: submit_invalid [OF assms(2)] js_def)
  ultimately show ?thesis
    by (simp add: initial_def)
qed

theorem error_and_stats_around_fetch_witness:
  "isValidAddress (trim example_address) \<and> \<not> isValidAddress (trim (js ''0x123'')) \<and>
   error initial = [] \<and> stats initial = JNull \<and>
   (\<exists>w'. submit_start example_address loaded = (True, w') \<and> error w' = [] \<and> stats w' = JNull) \<and>
   (\<forall>outcome. \<exists>w'. submit example_address outcome loaded = Inr w' \<and>
                   (error w' = [] \<or> stats w' = JNull)) \<and>
   (\<forall>outcome. \<exists>w'. submit (js ''0x123'') outcome loaded = Inr w' \<and> error w' \<noteq> [] \<and>
                   stats w' = stats loaded)"
proof -
  have v: "isValidAddress (trim example_address)"
    by (simp add: trim_example_address example_address_valid)
  have i: "\<not> isValidAddress (trim (js ''0x123''))"
    by (simp add: trim_0x123 invalid_0x123)
  from v i error_and_stats_around_fetch [OF v i, of loaded] show ?thesis
    by blast
qed

text \<open>
  After the sample has been loaded, submitting an invalid address leaves the page with an
  error message beside the statistics.
\<close>

theorem error_beside_stats_counterexample:
  "submit example_address (Response True (JsonValue example_stats)) initial = Inr loaded \<and>
   submit (js ''0x123'') (Response True (JsonValue example_stats)) loaded =
     Inr (loaded\<lparr>walletAddress := js ''0x123'',
                 error := js ''Please enter a valid Ethereum wallet address''\<rparr>) \<and>
   js ''Please enter a valid Ethereum wallet address'' \<noteq> [] \<and>
   stats loaded = example_stats \<and> truthy example_stats"
  by (simp add: submit_loads_example submit_invalid trim_0x123 invalid_0x123)
     (simp add: js_def loaded_def example_stats_def)

section \<open>The export\<close>

lemma export_start_run:
  assumes "statsCardRef w = Some c" and "truthy (stats w)"
  shows "export_start w =
           (Some (set_display ''none'' c),
            w\<lparr>isGeneratingImage := True, statsCardRef := Some (set_display ''none'' c)\<rparr>)"
  using assms by (simp add: export_start_def)

lemma set_display_twice: "set_display u (set_display v c) = set_display u c"
  by (cases "saveButton c") (simp_all add: set_display_def)

text \<open>The \<open>catch\<close> clause handles every throw of the \<open>try\<close> block, and \<open>finally\<close> runs after both.\<close>

lemma downloadStatsImage_run:
  assumes "statsCardRef w = Some c" and "truthy (stats w)"
  shows "downloadStatsImage raster enc w =
           Inr (export_finally
                  (case export_try raster enc (set_display ''none'' c) (stats w)
                          (w\<lparr>isGeneratingImage := True, statsCardRef := Some (set_display ''none'' c)\<rparr>) of
                     Inl e \<Rightarrow> w\<lparr>isGeneratingImage := True, statsCardRef := Some (set_display ''none'' c),
                                 console := console w @ [e]\<rparr>
                   | Inr w' \<Rightarrow> w'))"
  by (simp add: downloadStatsImage_def export_start_run [OF assms] export_catch_def
      split: sum.splits)

lemma export_try_Inr:
  "export_try raster enc c st w = Inr w' \<Longrightarrow>
     \<exists>d. w' = w\<lparr>downloads := downloads w @ [d]\<rparr>"
  by (auto simp: export_try_def split: raster_outcome.splits sum.splits encode_outcome.splits)

text \<open>
  C5. On a mounted card with statistics loaded, the export sets the \<open>display\<close> of the save
  button to \<open>none\<close> and sets the in-progress flag while it captures; however
  \<open>html2canvas\<close> and \<open>toDataURL\<close> turn out, it returns with the \<open>display\<close> of the button
  set to \<open>flex\<close> and the flag cleared, and the error message, the statistics, \<open>loading\<close>
  and the input are untouched. A throw of either is passed to \<open>console.error\<close> and
  starts no download.
\<close>

theorem export_restores_button_and_flag:
  assumes "statsCardRef w = Some c" and "truthy (stats w)"
  shows "(\<exists>w'. export_start w =
               (Some (c\<lparr>saveButton := (case saveButton c of None \<Rightarrow> None
                                         | Some _ \<Rightarrow> Some (js ''none''))\<rparr>), w') \<and>
               isGeneratingImage w' \<and>
               statsCardRef w' =
                 Some (c\<lparr>saveButton := (case saveButton c of None \<Rightarrow> None
                                          | Some _ \<Rightarrow> Some (js ''none''))\<rparr>)) \<and>
         (\<forall>raster enc. \<exists>w'. downloadStatsImage raster enc w = Inr w' \<and> \<not> isGeneratingImage w' \<and>
               statsCardRef w' =
                 Some (c\<lparr>saveButton := (case saveButton c of None \<Rightarrow> None
                                          | Some _ \<Rightarrow> Some (js ''flex''))\<rparr>) \<and>
               error w' = error w \<and> stats w' = stats w \<and> loading w' = loading w \<and>
               walletAddress w' = walletAddress w) \<and>
         (\<forall>err enc. \<exists>w'. downloadStatsImage (RenderThrows err) enc w = Inr w' \<and>
               console w' = console w @ [Thrown err] \<and> downloads w' = downloads w) \<and>
         (\<forall>err. \<exists>w' e. downloadStatsImage Rendered (EncodeThrows err) w = Inr w' \<and>
               console w' = console w @ [e] \<and> downloads w' = downloads w) \<and>
         js ''flex'' \<noteq> js ''none''"
proof -
  let ?w1 = "w\<lparr>isGeneratingImage := True, statsCardRef := Some (set_display ''none'' c)\<rparr>"
  have start: "\<exists>w'. export_start w = (Some (set_display ''none'' c), w') \<and> isGeneratingImage w' \<and>
                    statsCardRef w' = Some (set_display ''none'' c)"
    by (simp add: export_start_run [OF assms])
  have always: "\<exists>w'. downloadStatsImage raster enc w = Inr w' \<and> \<not> isGeneratingImage w' \<and>
               statsCardRef w' = Some (set_display ''flex'' c) \<and>
               error w' = error w \<and> stats w' = stats w \<and> loading w' = loading w \<and>
               walletAddress w' = walletAddress w" for raster enc
  proof (cases "export_try raster enc (set_display ''none'' c) (stats w) ?w1")
    case (Inl e)
    then show ?thesis
      by (simp add: downloadStatsImage_run [OF assms] export_finally_def set_display_twice)
  next
    case (Inr w'')
    from export_try_Inr [OF this] obtain d where "w'' = ?w1\<lparr>downloads := downloads ?w1 @ [d]\<rparr>"
      by blast
    with Inr show ?thesis
      by (simp add: downloadStatsImage_run [OF assms] export_finally_def set_display_twice)
  qed
  have render: "\<exists>w'. downloadStatsImage (RenderThrows err) enc w = Inr w' \<and>
               console w' = console w @ [Thrown err] \<and> downloads w' = downloads w" for err enc
    by (simp add: downloadStatsImage_run [OF assms] export_try_def export_finally_def)
  have encode: "\<exists>w' e. downloadStatsImage Rendered (EncodeThrows err) w = Inr w' \<and>
               console w' = console w @ [e] \<and> downloads w' = downloads w" for err
    by (cases "download_name (stats w)")
       (simp_all add: downloadStatsImage_run [OF assms] export_try_def export_finally_def)
  have differ: "js ''flex'' \<noteq> js ''none''"
    by (simp add: js_def)
  from start always render encode differ show ?thesis
    unfolding set_display_def by blast
qed

lemma shown_card: "statsCardRef shown = Some example_card"
  by (simp add: shown_def)

lemma shown_stats: "truthy (stats shown)"
  by (simp add: shown_def loaded_def example_stats_def)

theorem export_restores_button_and_flag_witness:
  "statsCardRef shown = Some example_card \<and> truthy (stats shown) \<and>
   saveButton example_card = Some [] \<and>
   (\<exists>w'. export_start shown =
            (Some \<lparr> offsetWidth = 640, offsetHeight = 480, saveButton = Some (js ''none'') \<rparr>, w') \<and>
          isGeneratingImage w' \<and>
          statsCardRef w' =
            Some \<lparr> offsetWidth = 640, offsetHeight = 480, saveButton = Some (js ''none'') \<rparr>) \<and>
   (\<forall>raster enc. \<exists>w'. downloadStatsImage raster enc shown = Inr w' \<and> \<not> isGeneratingImage w' \<and>
          statsCardRef w' =
            Some \<lparr> offsetWidth = 640, offsetHeight = 480, saveButton = Some (js ''flex'') \<rparr> \<and>
          error w' = error shown \<and> stats w' = stats shown \<and> loading w' = loading shown \<and>
          walletAddress w' = walletAddress shown) \<and>
   (\<forall>err enc. \<exists>w'. downloadStatsImage (RenderThrows err) enc shown = Inr w' \<and>
          console w' = console shown @ [Thrown err] \<and> downloads w' = downloads shown) \<and>
   (\<forall>err. \<exists>w' e. downloadStatsImage Rendered (EncodeThrows err) shown = Inr w' \<and>
          console w' = console shown @ [e] \<and> downloads w' = downloads shown) \<and>
   js ''flex'' \<noteq> js ''none''"
proof -
  have hidden: "example_card\<lparr>saveButton := (case saveButton example_card of None \<Rightarrow> None
                                              | Some _ \<Rightarrow> Some (js ''none''))\<rparr> =
                \<lparr> offsetWidth = 640, offsetHeight = 480, saveButton = Some (js ''none'') \<rparr>"
    and restored: "example_card\<lparr>saveButton := (case saveButton example_card of None \<Rightarrow> None
                                                | Some _ \<Rightarrow> Some (js ''flex''))\<rparr> =
                \<lparr> offsetWidth = 640, offsetHeight = 480, saveButton = Some (js ''flex'') \<rparr>"
    and button: "saveButton example_card = Some []"
    by (simp_all add: example_card_def)
  from export_restores_button_and_flag [OF shown_card shown_stats] shown_card shown_stats button
  show ?thesis
    unfolding hidden restored by blast
qed

lemma download_name_string:
  assumes "get_member ms ''address'' = Some (JStr address)"
  shows "download_name (JObj ms) = Inr (js ''wallet-stats-'' @ take 8 address @ js ''.png'')"
  using assms by (simp add: download_name_def address_slice_def)

text \<open>
  C8. When the capture and the encoding succeed, one download is started: its file name is
  \<open>wallet-stats-\<close>, the first eight characters of the address of the loaded statistics, and
  \<open>.png\<close>; its content is the \<open>image/png\<close> data URL of the canvas that \<open>html2canvas\<close> made
  of the card at scale 2, on the background \<open>#000000\<close>, in the card's layout width and
  height.
\<close>

theorem export_success_artifact:
  assumes "statsCardRef w = Some c" and "stats w = JObj ms"
    and "get_member ms ''address'' = Some (JStr address)"
  shows "\<exists>w'. downloadStatsImage Rendered Encoded w = Inr w' \<and>
           downloads w' = downloads w @
             [\<lparr> filename = js ''wallet-stats-'' @ take 8 address @ js ''.png'',
                href = \<lparr> mime = js ''image/png'',
                         canvas_of = \<lparr> target = set_display ''none'' c,
                                       backgroundColor = js ''#000000'', scale = 2,
                                       useCORS = True, allowTaint = True,
                                       width = offsetWidth c, height = offsetHeight c \<rparr> \<rparr> \<rparr>] \<and>
           console w' = console w"
proof -
  have t: "truthy (stats w)"
    using assms(2) by simp
  have sz: "offsetWidth (set_display ''none'' c) = offsetWidth c"
    "offsetHeight (set_display ''none'' c) = offsetHeight c"
    by (simp_all add: set_display_def)
  show ?thesis
    by (simp add: downloadStatsImage_run [OF assms(1) t] export_try_def assms(2)
        download_name_string [OF assms(3)] canvas_options_def export_finally_def sz)
qed

theorem export_success_artifact_witness:
  "statsCardRef shown = Some example_card \<and> stats shown = JObj example_members \<and>
   get_member example_members ''address'' = Some (JStr example_address) \<and>
   (\<exists>w'. downloadStatsImage Rendered Encoded shown = Inr w' \<and>
      downloads w' = downloads shown @
        [\<lparr> filename = js ''wallet-stats-'' @ take 8 example_address @ js ''.png'',
           href = \<lparr> mime = js ''image/png'',
                    canvas_of = \<lparr> target = set_display ''none'' example_card,
                                  backgroundColor = js ''#000000'', scale = 2,
                                  useCORS = True, allowTaint = True,
                                  width = offsetWidth example_card,
                                  height = offsetHeight example_card \<rparr> \<rparr> \<rparr>] \<and>
      console w' = console shown) \<and>
   js ''wallet-stats-'' @ take 8 example_address @ js ''.png'' = js ''wallet-stats-0xABCABC.png''"
proof -
  have s: "stats shown = JObj example_members"
    by (simp add: shown_def loaded_def example_stats_def)
  have a: "get_member example_members ''address'' = Some (JStr example_address)"
    by (simp add: get_member_def example_members_def js_def)
  have n: "js ''wallet-stats-'' @ take 8 example_address @ js ''.png'' = js ''wallet-stats-0xABCABC.png''"
    by (simp add: example_address_def js_def)
  from s a n shown_card export_success_artifact [OF shown_card s a] show ?thesis
    by blast
qed

text \<open>
  C10. When the card is not mounted or no statistics are loaded, the export returns at
  once and the whole state is as before: no flag set, no button hidden, no download.
\<close>

theorem export_guard_leaves_state:
  assumes "statsCardRef w = None \<or> \<not> truthy (stats w)"
  shows "export_start w = (None, w) \<and> (\<forall>raster enc. downloadStatsImage raster enc w = Inr w)"
  using assms by (auto simp: downloadStatsImage_def export_start_def split: option.splits)

theorem export_guard_leaves_state_witness:
  "(statsCardRef initial = None \<or> \<not> truthy (stats initial)) \<and>
   export_start initial = (None, initial) \<and>
   (\<forall>raster enc. downloadStatsImage raster enc initial = Inr initial)"
proof -
  have g: "statsCardRef initial = None \<or> \<not> truthy (stats initial)"
    by (simp add: initial_def)
  from g export_guard_leaves_state [OF g] show ?thesis
    by blast
qed

section \<open>The display values\<close>

text \<open>Rules that let the simplifier compute with the numeric definitions on numerals.\<close>

lemma floor_rat_numeral_div: "\<lfloor>(numeral a :: rat) / numeral b\<rfloor> = numeral a div numeral b"
  by (metis floor_divide_of_int_eq of_int_numeral)

lemma ceiling_rat_numeral_div: "\<lceil>(numeral a :: rat) / numeral b\<rceil> = - (- numeral a div numeral b)"
  unfolding ceiling_def
  by (metis floor_divide_of_int_eq of_int_numeral of_int_minus minus_divide_left)

lemma ndigits_pos: "0 < n \<Longrightarrow> 1 < b \<Longrightarrow> ndigits b n = 1 + ndigits b (n div b)"
  by (subst ndigits.simps) simp

lemma ndigits_nonpos: "n \<le> 0 \<Longrightarrow> ndigits b n = 0"
  by (subst ndigits.simps) simp

lemma dec_digits_one: "n < 10 \<Longrightarrow> dec_digits n = [digit_char n]"
  by (subst dec_digits.simps) simp

lemma dec_digits_more: "10 \<le> n \<Longrightarrow> dec_digits n = dec_digits (n div 10) @ [digit_char (n mod 10)]"
  by (subst dec_digits.simps) simp

lemmas double_eval = to_double_def ilog_def pow_def round_half_even_def Let_def
  floor_rat_numeral_div ceiling_rat_numeral_div ndigits_pos ndigits_nonpos

lemmas digits_eval = fixed_digits_def two_decimals_def dec_digits_one dec_digits_more digit_char_def
  floor_rat_numeral_div Let_def js_def

text \<open>
  The digit count and the logarithm are what they are meant to be, and rounding to the
  nearest integer is off by at most a half.
\<close>

lemma int_div_sandwich:
  fixes b n :: int
  assumes "0 < b"
  shows "b * (n div b) \<le> n" and "n < b * (n div b + 1)"
proof -
  have eq: "b * (n div b) + n mod b = n"
    by simp
  have md: "0 \<le> n mod b" "n mod b < b"
    using assms by simp_all
  show "b * (n div b) \<le> n"
    using eq md(1) by linarith
  have "b * (n div b + 1) = b * (n div b) + b"
    by (simp add: distrib_left)
  then show "n < b * (n div b + 1)"
    using eq md(2) by linarith
qed

lemma round_half_even_error: "\<bar>of_int (round_half_even x) - x\<bar> \<le> 1 / 2"
proof -
  have fl: "of_int \<lfloor>x\<rfloor> \<le> x" "x < of_int \<lfloor>x\<rfloor> + 1"
    by linarith+
  consider "x - of_int \<lfloor>x\<rfloor> < 1 / 2" | "1 / 2 < x - of_int \<lfloor>x\<rfloor>" | "x - of_int \<lfloor>x\<rfloor> = 1 / 2"
    by linarith
  then show ?thesis
  proof cases
    case 1
    then have "round_half_even x = \<lfloor>x\<rfloor>"
      by (simp add: round_half_even_def Let_def)
    with 1 fl show ?thesis
      by simp
  next
    case 2
    then have "round_half_even x = \<lfloor>x\<rfloor> + 1"
      by (simp add: round_half_even_def Let_def)
    with 2 fl show ?thesis
      by simp
  next
    case 3
    then have "round_half_even x = \<lfloor>x\<rfloor> \<or> round_half_even x = \<lfloor>x\<rfloor> + 1"
      by (simp add: round_half_even_def Let_def)
    with 3 fl show ?thesis
      by auto
  qed
qed

lemma ndigits_bounds:
  assumes "1 < b" and "0 < n"
  shows "0 < ndigits b n \<and> b ^ nat (ndigits b n - 1) \<le> n \<and> n < b ^ nat (ndigits b n)"
  using assms
proof (induction b n rule: ndigits.induct)
  case (1 b n)
  have b0: "0 < b"
    using "1.prems"(1) by simp
  show ?case
  proof (cases "n div b = 0")
    case True
    with "1.prems" have "n < b"
      by (auto simp: zdiv_eq_0_iff)
    moreover have "ndigits b n = 1"
      using "1.prems" True by (simp add: ndigits_pos ndigits_nonpos)
    ultimately show ?thesis
      using "1.prems"(2) by simp
  next
    case False
    moreover have "0 \<le> n div b"
      using "1.prems" b0 by (simp add: pos_imp_zdiv_nonneg_iff)
    ultimately have pos: "0 < n div b"
      by simp
    have "\<not> (n \<le> 0 \<or> b \<le> 1)"
      using "1.prems" by simp
    from "1.IH" [OF this "1.prems"(1) pos]
    have IH: "0 < ndigits b (n div b)" "b ^ nat (ndigits b (n div b) - 1) \<le> n div b"
      "n div b < b ^ nat (ndigits b (n div b))"
      by simp_all
    define k where "k = nat (ndigits b (n div b) - 1)"
    have k: "ndigits b (n div b) = int k + 1" "nat (ndigits b (n div b)) = Suc k"
      using IH(1) by (simp_all add: k_def)
    have eq: "ndigits b n = int k + 2"
      using "1.prems" by (simp add: ndigits_pos k)
    have "b * b ^ k \<le> b * (n div b)"
      using IH(2) b0 by (simp add: k_def)
    with int_div_sandwich(1) [OF b0, of n] have lo: "b ^ Suc k \<le> n"
      by simp
    have "n div b < b ^ Suc k"
      using IH(3) by (simp only: k(2))
    then have "n div b + 1 \<le> b ^ Suc k"
      by linarith
    then have "b * (n div b + 1) \<le> b * b ^ Suc k"
      using b0 by (simp only: mult_le_cancel_left_pos)
    with int_div_sandwich(2) [OF b0, of n] have hi: "n < b ^ Suc (Suc k)"
      by simp
    have "nat (ndigits b n - 1) = Suc k" "nat (ndigits b n) = Suc (Suc k)"
      by (simp_all add: eq)
    with lo hi show ?thesis
      by (simp add: eq)
  qed
qed

lemma pow_nat: "pow b (int k) = of_int b ^ k"
  by (simp add: pow_def)

lemma pow_neg: "pow b (- int k) = 1 / of_int b ^ k"
proof (cases k)
  case 0
  then show ?thesis
    by (simp add: pow_def)
next
  case (Suc j)
  then have "\<not> 0 \<le> - int k" "nat (- (- int k)) = k"
    by simp_all
  then show ?thesis
    by (simp only: pow_def if_False)
qed

lemma ilog_bounds:
  assumes "1 < b" and "0 < a"
  shows "pow b (ilog b a) \<le> a \<and> a < pow b (ilog b a + 1)"
proof (cases "1 \<le> a")
  case True
  define n where "n = \<lfloor>a\<rfloor>"
  have n: "0 < n" "of_int n \<le> a" "a < of_int n + 1"
    using True unfolding n_def by linarith+
  define k where "k = nat (ndigits b n - 1)"
  from ndigits_bounds [OF assms(1) n(1)]
  have d: "0 < ndigits b n" "b ^ k \<le> n" "n < b ^ nat (ndigits b n)"
    by (simp_all add: k_def)
  have k: "ndigits b n = int k + 1" "nat (ndigits b n) = Suc k"
    using d(1) by (simp_all add: k_def)
  have il: "ilog b a = int k"
    using True by (simp add: ilog_def n_def [symmetric] k)
  have "(of_int b :: rat) ^ k \<le> of_int n"
    using d(2) by (metis of_int_le_iff of_int_power)
  then have lo: "(of_int b :: rat) ^ k \<le> a"
    using n(2) by linarith
  have "n + 1 \<le> b ^ Suc k"
    using d(3) unfolding k(2) by linarith
  then have "(of_int n :: rat) + 1 \<le> of_int b ^ Suc k"
    by (metis of_int_le_iff of_int_power of_int_add of_int_1)
  then have hi: "a < (of_int b :: rat) ^ Suc k"
    using n(3) by linarith
  have "ilog b a + 1 = int (Suc k)"
    by (simp add: il)
  with lo hi show ?thesis
    by (simp only: il pow_nat simp_thms)
next
  case False
  define m where "m = \<lceil>1 / a\<rceil> - 1"
  have "1 < 1 / a"
    using False assms(2) by simp
  then have m: "0 < m" "of_int m < 1 / a" "1 / a \<le> of_int m + 1"
    unfolding m_def by linarith+
  define k where "k = nat (ndigits b m - 1)"
  from ndigits_bounds [OF assms(1) m(1)]
  have d: "0 < ndigits b m" "b ^ k \<le> m" "m < b ^ nat (ndigits b m)"
    by (simp_all add: k_def)
  have k: "ndigits b m = int k + 1" "nat (ndigits b m) = Suc k"
    using d(1) by (simp_all add: k_def)
  have il: "ilog b a = - (int k + 1)"
    using False by (simp add: ilog_def m_def [symmetric] k)
  have bpos: "0 < (of_int b :: rat) ^ j" for j
    using assms(1) by simp
  have "m + 1 \<le> b ^ Suc k"
    using d(3) unfolding k(2) by linarith
  then have "(of_int m :: rat) + 1 \<le> of_int b ^ Suc k"
    by (metis of_int_le_iff of_int_power of_int_add of_int_1)
  then have "1 / a \<le> (of_int b :: rat) ^ Suc k"
    using m(3) by linarith
  then have lo: "1 / (of_int b :: rat) ^ Suc k \<le> a"
    using assms(2) bpos [of "Suc k"] by (simp only: field_simps)
  have "(of_int b :: rat) ^ k \<le> of_int m"
    using d(2) by (metis of_int_le_iff of_int_power)
  then have "(of_int b :: rat) ^ k < 1 / a"
    using m(2) by linarith
  then have hi: "a < 1 / (of_int b :: rat) ^ k"
    using assms(2) bpos [of k] by (simp only: field_simps)
  have "ilog b a = - int (Suc k)" "ilog b a + 1 = - int k"
    by (simp_all add: il)
  with lo hi show ?thesis
    by (simp only: pow_neg simp_thms)
qed

lemma pow_power_int: "pow b e = power_int (of_int b) e"
  by (simp add: pow_def power_int_def inverse_eq_divide power_one_over)

lemma pow_positive: "0 < b \<Longrightarrow> 0 < pow b e"
  by (simp add: pow_power_int)

lemma pow_shift: "b \<noteq> 0 \<Longrightarrow> pow b (e + int n) = pow b e * of_int b ^ n"
  by (simp add: pow_power_int power_int_add)

lemma round_half_even_mono:
  assumes "x \<le> of_int n"
  shows "round_half_even x \<le> n"
proof -
  have fl: "of_int \<lfloor>x\<rfloor> \<le> x" "x < of_int \<lfloor>x\<rfloor> + 1"
    by linarith+
  have "\<lfloor>x\<rfloor> \<le> n"
    using assms by (simp add: floor_le_iff)
  show ?thesis
  proof (cases "x = of_int n")
    case True
    then show ?thesis
      by (simp add: round_half_even_def)
  next
    case False
    with assms have "x < of_int n"
      by simp
    then have "\<lfloor>x\<rfloor> < n"
      by (simp add: floor_less_iff)
    moreover have "round_half_even x \<le> \<lfloor>x\<rfloor> + 1"
      by (simp add: round_half_even_def Let_def)
    ultimately show ?thesis
      by linarith
  qed
qed

text \<open>
  A finite result of \<open>to_double\<close> is a multiple of the unit in the last place of its
  argument, with a significand of at most \<open>2\<^sup>5\<^sup>3\<close>, and lies within half a unit of it.
\<close>

lemma to_double_nearest:
  assumes "to_double q = Fin r" and "q \<noteq> 0"
  defines "ulp \<equiv> pow 2 (max (ilog 2 \<bar>q\<bar>) (- 1022) - 52)"
  shows "\<bar>r\<bar> = of_int (round_half_even (\<bar>q\<bar> / ulp)) * ulp"
    and "\<bar>r - q\<bar> \<le> ulp / 2"
    and "round_half_even (\<bar>q\<bar> / ulp) \<le> 2 ^ 53"
proof -
  define m where "m = round_half_even (\<bar>q\<bar> / ulp)"
  have ulp: "0 < ulp"
    by (simp add: ulp_def pow_positive)
  have "0 \<le> \<bar>q\<bar> / ulp"
    using ulp by simp
  then have "0 \<le> \<lfloor>\<bar>q\<bar> / ulp\<rfloor>"
    by simp
  then have m0: "0 \<le> m"
    by (simp add: m_def round_half_even_def Let_def)
  from assms(1,2) have r: "r = (if q < 0 then - (of_int m * ulp) else of_int m * ulp)"
    by (simp add: to_double_def Let_def m_def ulp_def split: if_splits)
  with m0 ulp show "\<bar>r\<bar> = of_int m * ulp"
    by (simp add: abs_mult)
  have "\<bar>of_int m - \<bar>q\<bar> / ulp\<bar> \<le> 1 / 2"
    unfolding m_def by (rule round_half_even_error)
  then have "\<bar>of_int m - \<bar>q\<bar> / ulp\<bar> * ulp \<le> 1 / 2 * ulp"
    using ulp by (simp only: mult_le_cancel_right_pos)
  moreover have "\<bar>of_int m - \<bar>q\<bar> / ulp\<bar> * ulp = \<bar>of_int m * ulp - \<bar>q\<bar>\<bar>"
  proof -
    have "(of_int m - \<bar>q\<bar> / ulp) * ulp = of_int m * ulp - \<bar>q\<bar>"
      using ulp by (simp add: field_simps)
    then have "\<bar>of_int m * ulp - \<bar>q\<bar>\<bar> = \<bar>of_int m - \<bar>q\<bar> / ulp\<bar> * \<bar>ulp\<bar>"
      by (simp only: abs_mult [symmetric])
    moreover have "\<bar>ulp\<bar> = ulp"
      using ulp by simp
    ultimately show ?thesis
      by simp
  qed
  ultimately have "\<bar>of_int m * ulp - \<bar>q\<bar>\<bar> \<le> ulp / 2"
    by simp
  then show "\<bar>r - q\<bar> \<le> ulp / 2"
  proof (cases "q < 0")
    case True
    then have "r = - (of_int m * ulp)" "\<bar>q\<bar> = - q"
      by (simp_all add: r)
    moreover assume "\<bar>of_int m * ulp - \<bar>q\<bar>\<bar> \<le> ulp / 2"
    ultimately show ?thesis
      by linarith
  next
    case False
    then have "r = of_int m * ulp" "\<bar>q\<bar> = q"
      by (simp_all add: r)
    moreover assume "\<bar>of_int m * ulp - \<bar>q\<bar>\<bar> \<le> ulp / 2"
    ultimately show ?thesis
      by linarith
  qed
  have "\<bar>q\<bar> < pow 2 (ilog 2 \<bar>q\<bar> + 1)"
    using ilog_bounds [of 2 "\<bar>q\<bar>"] assms(2) by simp
  also have "ilog 2 \<bar>q\<bar> + 1 \<le> max (ilog 2 \<bar>q\<bar>) (- 1022) + 1"
    by simp
  then have "pow 2 (ilog 2 \<bar>q\<bar> + 1) \<le> pow 2 (max (ilog 2 \<bar>q\<bar>) (- 1022) + 1)"
    by (simp only: pow_power_int) (rule power_int_increasing, simp_all)
  also have "max (ilog 2 \<bar>q\<bar>) (- 1022) + 1 = (max (ilog 2 \<bar>q\<bar>) (- 1022) - 52) + int 53"
    by simp
  then have "pow 2 (max (ilog 2 \<bar>q\<bar>) (- 1022) + 1) = ulp * 2 ^ 53"
    by (simp only: ulp_def pow_shift) simp
  finally have "\<bar>q\<bar> / ulp < 2 ^ 53"
    using ulp by (simp add: field_simps)
  then have "\<bar>q\<bar> / ulp \<le> of_int (2 ^ 53)"
    by simp
  then show "m \<le> 2 ^ 53"
    unfolding m_def by (rule round_half_even_mono)
qed

text \<open>Some doubles: the literal \<open>0.01\<close>, and two quotients that are exact.\<close>

lemma to_double_0_01: "to_double (1 / 100) = Fin literal_0_01"
  by (simp add: double_eval literal_0_01_def)

lemma to_double_1_5: "to_double (3 / 2) = Fin (3 / 2)"
  by (simp add: double_eval)

lemma to_double_2_5: "to_double (5 / 2) = Fin (5 / 2)"
  by (simp add: double_eval)

lemma formatNumber_minus_1500: "formatNumber (Num (Fin (- 1500))) = Inr (js ''-1500.00'')"
  by (simp add: formatNumber_def toFixed_def digits_eval)

lemma abbreviate_minus_1500: "abbreviate_by_magnitude (- 1500) = js ''-1.50K''"
  by (simp add: abbreviate_by_magnitude_def digits_eval)

lemma literal_value_volume: "literal_value (js ''824.309202265870747275'') = Some (824309202265870747275 / 10 ^ 18)"
  by (simp add: literal_value_def js_def is_digit_def decimal_def exponent_part_def pow_def)

lemma literal_value_17: "literal_value (js ''17.499999999999999'') = Some (17499999999999999 / 10 ^ 15)"
  by (simp add: literal_value_def js_def is_digit_def decimal_def exponent_part_def pow_def)

text \<open>
  Below \<open>10\<^sup>2\<^sup>1\<close>, \<open>toFixed(2)\<close> writes the nearest hundredth with exactly two digits after
  the point, and it never raises.
\<close>

lemma dec_digits_nonempty: "dec_digits n \<noteq> []"
  by (subst dec_digits.simps) simp

lemma dec_digits_hundreds:
  assumes "100 \<le> n"
  shows "dec_digits n = dec_digits (n div 100) @ [digit_char (n div 10 mod 10), digit_char (n mod 10)]"
proof -
  have "10 \<le> n" "10 \<le> n div 10"
    using assms by simp_all
  moreover have "n div 10 div 10 = n div 100"
    by (simp add: div_mult2_eq [symmetric])
  ultimately show ?thesis
    by (simp add: dec_digits_more [of n] dec_digits_more [of "n div 10"])
qed

lemma fixed_digits_two:
  assumes "0 \<le> a"
  shows "fixed_digits a 2 =
           (let n = \<lfloor>a * 100 + 1 / 2\<rfloor>
            in dec_digits (n div 100) @ js ''.'' @ [digit_char (n div 10 mod 10), digit_char (n mod 10)])"
proof -
  define n where "n = \<lfloor>a * 100 + 1 / 2\<rfloor>"
  have n0: "0 \<le> n"
    using assms by (simp add: n_def)
  have unfold: "fixed_digits a 2 =
      take (length (if length (dec_digits n) \<le> 2
                    then replicate (3 - length (dec_digits n)) 0x30 @ dec_digits n
                    else dec_digits n) - 2)
           (if length (dec_digits n) \<le> 2
            then replicate (3 - length (dec_digits n)) 0x30 @ dec_digits n else dec_digits n)
      @ js ''.'' @
      drop (length (if length (dec_digits n) \<le> 2
                    then replicate (3 - length (dec_digits n)) 0x30 @ dec_digits n
                    else dec_digits n) - 2)
           (if length (dec_digits n) \<le> 2
            then replicate (3 - length (dec_digits n)) 0x30 @ dec_digits n else dec_digits n)"
    by (simp add: fixed_digits_def n_def Let_def)
  consider "n < 10" | "10 \<le> n" "n < 100" | "100 \<le> n"
    by linarith
  then have "fixed_digits a 2 =
      dec_digits (n div 100) @ js ''.'' @ [digit_char (n div 10 mod 10), digit_char (n mod 10)]"
  proof cases
    case 1
    with n0 have "dec_digits n = [digit_char n]" "n div 100 = 0" "n div 10 = 0" "n mod 10 = n"
      by (simp_all add: dec_digits_one)
    then show ?thesis
      unfolding unfold by (simp add: dec_digits_one digit_char_def numeral_eq_Suc)
  next
    case 2
    with n0 have "dec_digits n = [digit_char (n div 10), digit_char (n mod 10)]"
      "n div 100 = 0" "n div 10 mod 10 = n div 10"
      by (simp_all add: dec_digits_more [of n] dec_digits_one)
    then show ?thesis
      unfolding unfold by (simp add: dec_digits_one digit_char_def numeral_eq_Suc)
  next
    case 3
    have "length (dec_digits n) = length (dec_digits (n div 100)) + 2"
      by (simp add: dec_digits_hundreds [OF 3])
    moreover have "0 < length (dec_digits (n div 100))"
      by (simp add: dec_digits_nonempty)
    ultimately show ?thesis
      unfolding unfold by (simp add: dec_digits_hundreds [OF 3])
  qed
  then show ?thesis
    by (simp add: n_def Let_def)
qed

lemma toFixed_two_decimals:
  assumes "\<bar>q\<bar> < 10 ^ 21"
  shows "toFixed (Fin q) 2 = Inr (two_decimals q)"
  using assms by (simp add: toFixed_def fixed_digits_two two_decimals_def Let_def)

lemma toFixed_two_total: "\<exists>r. toFixed x 2 = Inr r"
  by (simp add: toFixed_def)

lemma formatNumber_total: "\<exists>r. formatNumber num = Inr r"
  by (simp add: formatNumber_def toFixed_def suffixed_def Let_def)

lemma formatNumber_NaN: "formatNumber (Num NaN) = Inr (js ''NaN'')"
  by (simp add: formatNumber_def toFixed_def number_to_string_def)

lemma formatNumber_Str: "formatNumber (Str s) = formatNumber (Num (parseFloat s))"
  by (simp add: formatNumber_def)

text \<open>A string that starts with a decimal literal is parsed to the double nearest its value.\<close>

lemma literal_value_head:
  assumes "literal_value tv = Some v"
  obtains c r where "tv = c # r" and "is_digit c \<or> c = 0x2E"
proof (cases "takeWhile is_digit tv = []")
  case False
  then have "tv \<noteq> []" "is_digit (hd tv)"
    by (auto simp: takeWhile_eq_Nil_iff)
  then show ?thesis
    by (cases tv) (auto intro: that)
next
  case True
  then have "dropWhile is_digit tv = tv"
    by (metis takeWhile_dropWhile_id append_Nil)
  with True assms show ?thesis
    by (cases tv) (auto simp: literal_value_def Let_def split: if_splits intro: that)
qed

lemma not_ws_literal_head: "is_digit c \<or> c = 0x2E \<Longrightarrow> \<not> is_ws c"
  by (auto simp: is_digit_def is_ws_def word_le_nat_alt)

lemma parseFloat_literal:
  assumes "literal_value tv = Some v"
  shows "parseFloat tv = to_double v"
proof -
  from assms obtain c r where tv: "tv = c # r" and c: "is_digit c \<or> c = 0x2E"
    by (rule literal_value_head)
  from c have "\<not> is_ws c"
    by (rule not_ws_literal_head)
  moreover from c have "c \<noteq> 0x2D" "c \<noteq> 0x2B" "c \<noteq> 0x49"
    by (auto simp: is_digit_def)
  ultimately show ?thesis
    using assms by (simp add: parseFloat_def tv split_sign_def js_def)
qed

text \<open>
  \<open>parseFloat\<close> returns \<open>NaN\<close> exactly when, after white space and a sign, neither
  \<open>Infinity\<close> nor a digit nor a point and a digit follows.
\<close>

lemma to_double_not_NaN: "to_double q \<noteq> NaN"
  by (simp add: to_double_def Let_def)

lemma literal_value_None_iff:
  "literal_value u = None \<longleftrightarrow>
     (case u of
        [] \<Rightarrow> True
      | c # r \<Rightarrow> \<not> is_digit c \<and> (c = 0x2E \<longrightarrow> (case r of [] \<Rightarrow> True | d # _ \<Rightarrow> \<not> is_digit d)))"
  by (auto simp: literal_value_def Let_def takeWhile_eq_Nil_iff split: list.splits)

lemma parseFloat_NaN_iff:
  "parseFloat s = NaN \<longleftrightarrow>
     (case split_sign (dropWhile is_ws s) of
        (neg, u) \<Rightarrow> take 8 u \<noteq> js ''Infinity'' \<and> literal_value u = None)"
  by (auto simp: parseFloat_def to_double_not_NaN split: prod.splits option.splits)

lemma parseFloat_abc: "parseFloat (js ''abc'') = NaN"
  by (simp add: parseFloat_def js_def is_ws_def split_sign_def literal_value_def is_digit_def)

lemma formatNumber_branches:
  shows "q < 1000 \<Longrightarrow> - (10 ^ 21) < q \<Longrightarrow> formatNumber (Num (Fin q)) = Inr (two_decimals q)"
    and "1000 \<le> q \<Longrightarrow> q < 1000000 \<Longrightarrow> to_double (q / 1000) = Fin r \<Longrightarrow> \<bar>r\<bar> < 10 ^ 21 \<Longrightarrow>
         formatNumber (Num (Fin q)) = Inr (two_decimals r @ js ''K'')"
    and "1000000 \<le> q \<Longrightarrow> to_double (q / 1000000) = Fin r \<Longrightarrow> \<bar>r\<bar> < 10 ^ 21 \<Longrightarrow>
         formatNumber (Num (Fin q)) = Inr (two_decimals r @ js ''M'')"
proof -
  show "formatNumber (Num (Fin q)) = Inr (two_decimals q)" if "q < 1000" "- (10 ^ 21) < q"
  proof -
    from that have "\<bar>q\<bar> < 10 ^ 21"
      by simp
    with that(1) show ?thesis
      by (simp add: formatNumber_def toFixed_two_decimals)
  qed
  show "formatNumber (Num (Fin q)) = Inr (two_decimals r @ js ''K'')"
    if "1000 \<le> q" "q < 1000000" "to_double (q / 1000) = Fin r" "\<bar>r\<bar> < 10 ^ 21"
    using that(1,2,3) toFixed_two_decimals [OF that(4)]
    by (simp add: formatNumber_def suffixed_def)
  show "formatNumber (Num (Fin q)) = Inr (two_decimals r @ js ''M'')"
    if "1000000 \<le> q" "to_double (q / 1000000) = Fin r" "\<bar>r\<bar> < 10 ^ 21"
    using that(1,2) toFixed_two_decimals [OF that(3)]
    by (simp add: formatNumber_def suffixed_def)
qed

lemma two_decimals_950: "two_decimals 950 = js ''950.00''"
  by (simp add: digits_eval)

lemma two_decimals_1_5: "two_decimals (3 / 2) @ js ''K'' = js ''1.50K''"
  by (simp add: digits_eval)

lemma two_decimals_2_5: "two_decimals (5 / 2) @ js ''M'' = js ''2.50M''"
  by (simp add: digits_eval)

lemma formatNumber_950: "formatNumber (Num (Fin 950)) = Inr (js ''950.00'')"
  using formatNumber_branches(1) [of 950] two_decimals_950 by simp

lemma formatNumber_1500: "formatNumber (Num (Fin 1500)) = Inr (js ''1.50K'')"
  using formatNumber_branches(2) [of 1500 "3 / 2"] to_double_1_5 two_decimals_1_5 by simp

lemma formatNumber_2500000: "formatNumber (Num (Fin 2500000)) = Inr (js ''2.50M'')"
  using formatNumber_branches(3) [of 2500000 "5 / 2"] to_double_2_5 two_decimals_2_5 by simp

text \<open>
  C6. \<open>formatNumber\<close> treats a string as the number \<open>parseFloat\<close> reads from it, and
  chooses by the value, not by its magnitude: a value below 1,000, negative ones included,
  is written to two decimal places; from 1,000 and below 1,000,000 the double quotient by
  1,000 is written to two decimal places with \<open>K\<close>; from 1,000,000 the double quotient by
  1,000,000 is written to two decimal places with \<open>M\<close> (for what is written below \<open>10\<^sup>2\<^sup>1\<close>).
  So 950 gives \<open>950.00\<close>, 1500 gives \<open>1.50K\<close> and 2500000 gives \<open>2.50M\<close>.
\<close>

theorem formatNumber_by_value:
  assumes "q1 < 1000" and "- (10 ^ 21) < q1"
    and "1000 \<le> q2" and "q2 < 1000000" and "to_double (q2 / 1000) = Fin r2" and "\<bar>r2\<bar> < 10 ^ 21"
    and "1000000 \<le> q3" and "to_double (q3 / 1000000) = Fin r3" and "\<bar>r3\<bar> < 10 ^ 21"
  shows "formatNumber (Str s) = formatNumber (Num (parseFloat s)) \<and>
         formatNumber (Num (Fin q1)) = Inr (two_decimals q1) \<and>
         formatNumber (Num (Fin q2)) = Inr (two_decimals r2 @ js ''K'') \<and>
         formatNumber (Num (Fin q3)) = Inr (two_decimals r3 @ js ''M'') \<and>
         formatNumber (Num (Fin 950)) = Inr (js ''950.00'') \<and>
         formatNumber (Num (Fin 1500)) = Inr (js ''1.50K'') \<and>
         formatNumber (Num (Fin 2500000)) = Inr (js ''2.50M'')"
  using formatNumber_branches(1) [OF assms(1,2)] formatNumber_branches(2) [OF assms(3,4,5,6)]
    formatNumber_branches(3) [OF assms(7,8,9)] formatNumber_Str [of s]
    formatNumber_950 formatNumber_1500 formatNumber_2500000
  by (simp only: simp_thms)

theorem formatNumber_by_value_witness:
  "(- 1500 :: rat) < 1000 \<and> - (10 ^ 21) < (- 1500 :: rat) \<and>
   (1000 :: rat) \<le> 1500 \<and> (1500 :: rat) < 1000000 \<and> to_double (1500 / 1000) = Fin (3 / 2) \<and>
   \<bar>3 / 2 :: rat\<bar> < 10 ^ 21 \<and>
   (1000000 :: rat) \<le> 2500000 \<and> to_double (2500000 / 1000000) = Fin (5 / 2) \<and>
   \<bar>5 / 2 :: rat\<bar> < 10 ^ 21 \<and>
   formatNumber (Str (js ''1500'')) = formatNumber (Num (parseFloat (js ''1500''))) \<and>
   formatNumber (Num (Fin (- 1500))) = Inr (two_decimals (- 1500)) \<and>
   formatNumber (Num (Fin 1500)) = Inr (two_decimals (3 / 2) @ js ''K'') \<and>
   formatNumber (Num (Fin 2500000)) = Inr (two_decimals (5 / 2) @ js ''M'')"
proof -
  have a: "(- 1500 :: rat) < 1000" "- (10 ^ 21) < (- 1500 :: rat)"
    and b: "(1000 :: rat) \<le> 1500" "(1500 :: rat) < 1000000" "\<bar>3 / 2 :: rat\<bar> < 10 ^ 21"
    and c: "(1000000 :: rat) \<le> 2500000" "\<bar>5 / 2 :: rat\<bar> < 10 ^ 21"
    by simp_all
  have d2: "to_double (1500 / 1000) = Fin (3 / 2)"
    using to_double_1_5 by simp
  have d3: "to_double (2500000 / 1000000) = Fin (5 / 2)"
    using to_double_2_5 by simp
  from formatNumber_by_value [OF a b(1,2) d2 b(3) c(1) d3 c(2), of "js ''1500''"] a b c d2 d3
  show ?thesis
    by (simp only: simp_thms)
qed

text \<open>
  The quotient of \<open>10\<^sup>2\<^sup>7\<close> by 1,000,000 is \<open>10\<^sup>2\<^sup>1\<close>, which \<open>toFixed\<close> writes as \<open>Number::toString\<close>
  does, with an exponent.
\<close>

lemma to_double_1e21: "to_double (10 ^ 21) = Fin (10 ^ 21)"
  by (simp add: double_eval)

lemma to_double_1e22: "to_double (10 ^ 22) = Fin (10 ^ 22)"
  by (simp add: double_eval)

lemma to_double_2e21: "to_double (2 * 10 ^ 21) = Fin (2 * 10 ^ 21)"
  by (simp add: double_eval)

lemma ilog_10_1e21: "ilog 10 (10 ^ 21) = 21"
  by (simp add: ilog_def ndigits_pos ndigits_nonpos)

lemma digits_1e21: "digits_nks (10 ^ 21) = (22, 1, 1)"
proof -
  have a: "\<not> round_trips (10 ^ 21) 1 22"
    using to_double_1e22 by (simp add: round_trips_def pow_def)
  have b: "round_trips (10 ^ 21) 1 21"
    using to_double_1e21 by (simp add: round_trips_def pow_def)
  have c: "\<not> round_trips (10 ^ 21) 2 21"
    using to_double_2e21 by (simp add: round_trips_def pow_def)
  have d: "\<lfloor>(10 :: rat) ^ 21 / pow 10 (22 - 1)\<rfloor> = 1"
    by (simp add: pow_def)
  have "shortest (10 ^ 21) 22 (Suc 16) 1 = (1, 1)"
    using b c d by (simp only: shortest.simps Let_def) simp
  then show ?thesis
    using a ilog_10_1e21 by (simp add: digits_nks_def)
qed

lemma number_to_string_1e21: "number_to_string_pos (10 ^ 21) = js ''1e+21''"
  using digits_1e21
  by (simp add: number_to_string_pos_def dec_digits_one dec_digits_more digit_char_def js_def)

lemma formatNumber_1e27: "formatNumber (Num (Fin (10 ^ 27))) = Inr (js ''1e+21M'')"
proof -
  have "div_by (Fin (10 ^ 27)) 1000000 = Fin (10 ^ 21)"
    using to_double_1e21 by simp
  moreover have "toFixed (Fin (10 ^ 21)) 2 = Inr (js ''1e+21'')"
    using number_to_string_1e21 by (simp add: toFixed_def)
  ultimately show ?thesis
    by (simp add: formatNumber_def suffixed_def js_def del: div_by.simps)
qed

text \<open>
  The magnitude of \<open>-1500\<close> is above 1,000, and the rule on magnitudes abbreviates it;
  \<open>formatNumber\<close> writes it in full. And \<open>10\<^sup>2\<^sup>7\<close> is not written to two decimal places.
\<close>

theorem formatNumber_counterexample:
  "formatNumber (Num (Fin (- 1500))) = Inr (js ''-1500.00'') \<and>
   abbreviate_by_magnitude (- 1500) = js ''-1.50K'' \<and>
   formatNumber (Num (Fin (10 ^ 27))) = Inr (js ''1e+21M'')"
  using formatNumber_minus_1500 abbreviate_minus_1500 formatNumber_1e27
  by (simp only: simp_thms)

text \<open>
  C9. For every string, \<open>formatNumber\<close> returns a string and raises nothing; for a string
  that \<open>parseFloat\<close> reads as \<open>NaN\<close> it returns \<open>NaN\<close>.
\<close>

theorem formatNumber_string_returns:
  "(\<exists>r. formatNumber (Str s) = Inr r) \<and>
   (parseFloat t = NaN \<longrightarrow> formatNumber (Str t) = Inr (js ''NaN''))"
  using formatNumber_total [of "Str s"] by (simp add: formatNumber_Str formatNumber_NaN)

theorem formatNumber_string_returns_witness:
  "parseFloat (js ''abc'') = NaN \<and>
   (\<exists>r. formatNumber (Str (js ''abc'')) = Inr r) \<and>
   formatNumber (Str (js ''abc'')) = Inr (js ''NaN'')"
  using formatNumber_string_returns [of "js ''abc''" "js ''abc''"] parseFloat_abc
  by simp

text \<open>The sample volume and its fee, step by step in doubles.\<close>

lemma to_double_volume:
  "to_double (824309202265870747275 / 10 ^ 18) = Fin (7250700422192669 / 2 ^ 43)"
  by (simp add: double_eval)

lemma to_double_fee:
  "to_double (7250700422192669 / 2 ^ 43 * literal_0_01) = Fin (1160112067550827 / 2 ^ 47)"
  by (simp add: double_eval literal_0_01_def)

lemma format_fee:
  "formatNumber (Num (Fin (1160112067550827 / 2 ^ 47))) = Inr (js ''8.24'')"
  by (simp add: formatNumber_def toFixed_def digits_eval)

lemma parseFloat_volume:
  "parseFloat (js ''824.309202265870747275'') = Fin (7250700422192669 / 2 ^ 43)"
  using parseFloat_literal [OF literal_value_volume] to_double_volume by simp

lemma fee_example: "fee_display (js ''824.309202265870747275'') = Inr (js ''8.24'')"
proof -
  have "mul_by (parseFloat (js ''824.309202265870747275'')) literal_0_01 =
          Fin (1160112067550827 / 2 ^ 47)"
    using to_double_fee by (simp only: parseFloat_volume mul_by.simps)
  then show ?thesis
    using format_fee by (simp only: fee_display_def)
qed

text \<open>
  A volume just below 17.5: \<open>parseFloat\<close> rounds it to 17.5, and the product with the double
  \<open>0.01\<close> lies above 0.175, while the exact hundredth of the volume lies below.
\<close>

lemma to_double_17: "to_double (17499999999999999 / 10 ^ 15) = Fin (35 / 2)"
  by (simp add: double_eval)

lemma to_double_17_fee: "to_double (35 / 2 * literal_0_01) = Fin (6305039478318695 / 2 ^ 55)"
  by (simp add: double_eval literal_0_01_def)

lemma to_double_17_exact:
  "to_double (17499999999999999 / 10 ^ 15 * (1 / 100)) = Fin (3152519739159347 / 2 ^ 54)"
  by (simp add: double_eval)

lemma parseFloat_17: "parseFloat (js ''17.499999999999999'') = Fin (35 / 2)"
  using parseFloat_literal [OF literal_value_17] to_double_17 by simp

lemma format_0_18: "formatNumber (Num (Fin (6305039478318695 / 2 ^ 55))) = Inr (js ''0.18'')"
  by (simp add: formatNumber_def toFixed_def digits_eval)

lemma format_0_17: "formatNumber (Num (Fin (3152519739159347 / 2 ^ 54))) = Inr (js ''0.17'')"
  by (simp add: formatNumber_def toFixed_def digits_eval)

text \<open>
  The fee shown for that volume is \<open>0.18\<close>; the exact product, whether handed to
  \<open>formatNumber\<close> or written to two decimal places as it is, gives \<open>0.17\<close>.
\<close>

theorem fee_rounding_counterexample:
  "literal_value (js ''17.499999999999999'') = Some (17499999999999999 / 10 ^ 15) \<and>
   fee_display (js ''17.499999999999999'') = Inr (js ''0.18'') \<and>
   estimatedFee_exact (17499999999999999 / 10 ^ 15) = Inr (js ''0.17'') \<and>
   two_decimals (17499999999999999 / 10 ^ 15 * (1 / 100)) = js ''0.17''"
proof -
  have "mul_by (parseFloat (js ''17.499999999999999'')) literal_0_01 =
          Fin (6305039478318695 / 2 ^ 55)"
    using to_double_17_fee by (simp only: parseFloat_17 mul_by.simps)
  then have "fee_display (js ''17.499999999999999'') = Inr (js ''0.18'')"
    using format_0_18 by (simp only: fee_display_def)
  moreover have "estimatedFee_exact (17499999999999999 / 10 ^ 15) = Inr (js ''0.17'')"
    using format_0_17 by (simp only: estimatedFee_exact_def to_double_17_exact)
  moreover have "two_decimals (17499999999999999 / 10 ^ 15 * (1 / 100)) = js ''0.17''"
    by (simp add: digits_eval)
  ultimately show ?thesis
    using literal_value_17 by (simp only: simp_thms)
qed

text \<open>
  C7. For a volume given as a decimal literal, the fee shown is \<open>formatNumber\<close> of the
  double product of two doubles: the one nearest to the value of the literal, which is what
  \<open>parseFloat\<close> returns, and the one nearest to 0.01. For the sample volume
  \<open>824.309202265870747275\<close> it is \<open>8.24\<close>.
\<close>

theorem fee_display_in_doubles:
  assumes "literal_value total_volume = Some v" and "to_double v = Fin d"
  shows "fee_display total_volume = formatNumber (Num (to_double (d * literal_0_01))) \<and>
         to_double (1 / 100) = Fin literal_0_01 \<and>
         fee_display (js ''824.309202265870747275'') = Inr (js ''8.24'')"
  using assms fee_example by (simp add: fee_display_def parseFloat_literal to_double_0_01)

theorem fee_display_in_doubles_witness:
  "literal_value (js ''17.499999999999999'') = Some (17499999999999999 / 10 ^ 15) \<and>
   to_double (17499999999999999 / 10 ^ 15) = Fin (35 / 2) \<and>
   fee_display (js ''17.499999999999999'') =
     formatNumber (Num (to_double (35 / 2 * literal_0_01))) \<and>
   to_double (1 / 100) = Fin literal_0_01 \<and>
   fee_display (js ''824.309202265870747275'') = Inr (js ''8.24'')"
  using fee_display_in_doubles [OF literal_value_17 to_double_17] literal_value_17 to_double_17
  by (simp only: simp_thms)

end
